theory Spec2Isabelle
  imports Complex_Main "HOL-Library.AList" "HOL-Library.Multiset"
begin

section \<open>Conversion of ELECTRA checkpoints: the name map, the materializer, the merger\<close>

text \<open>
  A shallow embedding of \<^verbatim>\<open>scripts/conversion_toolkits/convert_electra.py\<close>.
  Parameter names are Python strings, here \<^typ>\<open>string\<close>; the names of a checkpoint and
  of a model are ASCII. A Python exception is a value of \<open>error\<close>, and a function that may
  raise returns \<open>error + 'a\<close>. Dictionaries keep their insertion order, which the loops of
  the script follow, so they are association lists with unique keys.
\<close>

subsection \<open>Errors\<close>

datatype error =
    AssertionError
  | KeyError
  | NotImplementedError
  | ValueError
  | UnboundLocalError
  | ShapeMismatchError

subsection \<open>Python string operations\<close>

text \<open>\<^verbatim>\<open>s.startswith(p)\<close>\<close>

fun startswith :: "string \<Rightarrow> string \<Rightarrow> bool" where
  "startswith [] s = True"
| "startswith (p # ps) [] = False"
| "startswith (p # ps) (c # s) = (p = c \<and> startswith ps s)"

text \<open>\<^verbatim>\<open>s.endswith(p)\<close>\<close>

definition endswith :: "string \<Rightarrow> string \<Rightarrow> bool" where
  "endswith p s = startswith (rev p) (rev s)"

text \<open>\<^verbatim>\<open>sub in s\<close>: \<open>sub\<close> occurs in \<open>s\<close> as a contiguous substring.\<close>

fun contains :: "string \<Rightarrow> string \<Rightarrow> bool" where
  "contains sub [] = (sub = [])"
| "contains sub (c # s) = (startswith sub (c # s) \<or> contains sub s)"

text \<open>
  \<^verbatim>\<open>s.replace(old, new)\<close>: every occurrence of \<open>old\<close>, found from the left and not
  overlapping an earlier one, is replaced. With an empty \<open>old\<close> Python puts \<open>new\<close> before
  every character and at the end.
\<close>

function replace :: "string \<Rightarrow> string \<Rightarrow> string \<Rightarrow> string" where
  "replace old new [] = (if old = [] then new else [])"
| "replace old new (c # s) =
     (if old = [] then new @ c # replace old new s
      else if startswith old (c # s) then new @ replace old new (drop (length old) (c # s))
      else c # replace old new s)"
  by pat_completeness auto
termination
  by (relation "measure (\<lambda>(old, new, s). length s)") auto

subsection \<open>The rewrite rules\<close>

definition CONVERT_MAP :: "(string \<times> string) list" where
  "CONVERT_MAP =
   [(''backbone_model.discriminator_predictions/dense_1'', ''rtd_encoder.2''),
    (''backbone_model.discriminator_predictions/dense'', ''rtd_encoder.0''),
    (''backbone_model.generator_predictions/dense'', ''mlm_decoder.0''),
    (''backbone_model.generator_predictions/LayerNorm'', ''mlm_decoder.2''),
    (''backbone_model.generator_predictions/output_bias'', ''mlm_decoder.3.bias''),
    (''electra/'', ''''),
    (''generator/'', ''''),
    (''embeddings_project'', ''embed_factorized_proj''),
    (''embeddings/word_embeddings'', ''word_embed.weight''),
    (''embeddings/token_type_embeddings'', ''token_type_embed.weight''),
    (''embeddings/position_embeddings'', ''token_pos_embed._embed.weight''),
    (''layer_'', ''all_encoder_layers.''),
    (''embeddings/LayerNorm'', ''embed_layer_norm''),
    (''attention/output/LayerNorm'', ''layer_norm''),
    (''attention/output/dense'', ''attention_proj''),
    (''output/LayerNorm'', ''ffn.layer_norm''),
    (''LayerNorm'', ''layer_norm''),
    (''intermediate/dense'', ''ffn.ffn_1''),
    (''output/dense'', ''ffn.ffn_2''),
    (''output/'', ''''),
    (''kernel'', ''weight''),
    (''/'', ''.'')]"

text \<open>
  The inner loop of \<open>get_name_map\<close>:
  \<^verbatim>\<open>for old, new in CONVERT_MAP: target_name = target_name.replace(old, new)\<close>,
  for any list of rules.
\<close>

fun apply_rules :: "(string \<times> string) list \<Rightarrow> string \<Rightarrow> string" where
  "apply_rules [] target_name = target_name"
| "apply_rules ((old, new) # rules) target_name = apply_rules rules (replace old new target_name)"

subsection \<open>The name map\<close>

text \<open>
  A name map sends a source name to \<open>Some target\<close> or to \<open>None\<close>, the sentinel (Python's
  \<^verbatim>\<open>None\<close>). \<^verbatim>\<open>name_map[k] = v\<close> is \<open>AList.update k v\<close>: a new key goes to the end,
  an old key keeps its place.
\<close>

type_synonym name_map = "(string \<times> string option) list"

text \<open>
  The role filter, the head of the loop body. \<open>Inr None\<close> is \<^verbatim>\<open>continue\<close>;
  \<open>Inr (Some t)\<close> gives the target name before rewriting.
\<close>

definition role_filter :: "string \<Rightarrow> string \<Rightarrow> error + string option" where
  "role_filter convert_type source_name =
     (if convert_type = ''backbone'' then
        (if \<not> contains ''electra'' source_name then Inr None else Inr (Some source_name))
      else if convert_type = ''disc'' then
        (if contains ''generator'' source_name then Inr None
         else Inr (Some (''backbone_model.'' @ source_name)))
      else if convert_type = ''gen'' then
        (if \<not> contains ''generator'' source_name then Inr None
         else Inr (Some (''backbone_model.'' @ source_name)))
      else Inl NotImplementedError)"

text \<open>The loop of \<open>get_name_map\<close> over \<open>tf_names\<close>, from the dictionary built so far.\<close>

fun get_name_map_loop ::
  "(string \<times> string) list \<Rightarrow> string \<Rightarrow> name_map \<Rightarrow> string list \<Rightarrow> error + name_map" where
  "get_name_map_loop rules convert_type name_map [] = Inr name_map"
| "get_name_map_loop rules convert_type name_map (source_name # tf_names) =
     (case role_filter convert_type source_name of
        Inl e \<Rightarrow> Inl e
      | Inr None \<Rightarrow> get_name_map_loop rules convert_type name_map tf_names
      | Inr (Some target_name) \<Rightarrow>
          if contains ''self/'' source_name then
            get_name_map_loop rules convert_type
              (AList.update source_name None name_map) tf_names
          else
            get_name_map_loop rules convert_type
              (AList.update source_name (Some (apply_rules rules target_name)) name_map)
              tf_names)"

text \<open>
  What the loop body stores for one source name: nothing when the role filter skips the
  name (or raises), the sentinel for a member of a fused projection, the rewritten target
  name otherwise.
\<close>

definition entry_of :: "(string \<times> string) list \<Rightarrow> string \<Rightarrow> string \<Rightarrow> string option option" where
  "entry_of rules convert_type source_name =
     (case role_filter convert_type source_name of
        Inr (Some target_name) \<Rightarrow>
          Some (if contains ''self/'' source_name then None
                else Some (apply_rules rules target_name))
      | _ \<Rightarrow> None)"

definition get_name_map_with ::
  "(string \<times> string) list \<Rightarrow> string list \<Rightarrow> string \<Rightarrow> error + name_map" where
  "get_name_map_with rules tf_names convert_type =
     get_name_map_loop rules convert_type [] tf_names"

definition get_name_map :: "string list \<Rightarrow> string \<Rightarrow> error + name_map" where
  "get_name_map tf_names convert_type = get_name_map_with CONVERT_MAP tf_names convert_type"

subsection \<open>Tensors\<close>

text \<open>
  A numpy array: its shape and its elements in row-major order, \<open>prod_list (shape a)\<close>
  of them. The conversion only moves elements, so their type is left open.
\<close>

record 'a ndarray =
  shape :: "nat list"
  data :: "'a list"

text \<open>All index tuples of a shape, in row-major order, and the row-major offset of one.\<close>

fun indices :: "nat list \<Rightarrow> nat list list" where
  "indices [] = [[]]"
| "indices (n # sh) = concat (map (\<lambda>i. map ((#) i) (indices sh)) [0..<n])"

fun offset :: "nat list \<Rightarrow> nat list \<Rightarrow> nat" where
  "offset (n # sh) (i # idx) = i * prod_list sh + offset sh idx"
| "offset _ _ = 0"

text \<open>
  \<^verbatim>\<open>a.T\<close>: numpy reverses the order of all axes, so the element at index
  \<open>(i\<^sub>1, \<dots>, i\<^sub>n)\<close> of \<open>a.T\<close> is the element at \<open>(i\<^sub>n, \<dots>, i\<^sub>1)\<close> of \<open>a\<close>.
\<close>

definition T :: "'a ndarray \<Rightarrow> 'a ndarray" where
  "T a = \<lparr>shape = rev (shape a),
          data = map (\<lambda>idx. data a ! offset (shape a) (rev idx)) (indices (rev (shape a)))\<rparr>"



text \<open>
  \<^verbatim>\<open>np.concatenate(arrs, axis)\<close>: the arrays agree in every dimension but \<open>axis\<close>;
  numpy raises a \<^verbatim>\<open>ValueError\<close> (of which \<^verbatim>\<open>AxisError\<close> is a subclass) otherwise.
  For every index of the axes before \<open>axis\<close> the blocks of the arrays follow one another.
\<close>

definition concatenate :: "'a ndarray list \<Rightarrow> nat \<Rightarrow> error + 'a ndarray" where
  "concatenate arrs axis =
     (case arrs of
        [] \<Rightarrow> Inl ValueError
      | a # _ \<Rightarrow>
          if \<not> axis < length (shape a) then Inl ValueError
          else if \<exists>b \<in> set arrs. length (shape b) \<noteq> length (shape a) \<or>
                    (shape b)[axis := 0] \<noteq> (shape a)[axis := 0] then Inl ValueError
          else Inr \<lparr>shape = (shape a)[axis := sum_list (map (\<lambda>b. shape b ! axis) arrs)],
                    data = concat (map (\<lambda>outer.
                             concat (map (\<lambda>b.
                               take (prod_list (drop axis (shape b)))
                                 (drop (outer * prod_list (drop axis (shape b))) (data b)))
                               arrs))
                             [0..<prod_list (take axis (shape a))])\<rparr>)"

subsection \<open>Parameter stores\<close>

text \<open>
  \<open>tf_params\<close> is the checkpoint, \<open>mx_params\<close> the parameters of the target model:
  dictionaries from names to tensors. \<^verbatim>\<open>d[k]\<close> raises \<^verbatim>\<open>KeyError\<close> on a missing key.
\<close>

type_synonym 'a params = "(string \<times> 'a ndarray) list"

definition getitem :: "('k \<times> 'v) list \<Rightarrow> 'k \<Rightarrow> error + 'v" where
  "getitem d k = (case map_of d k of None \<Rightarrow> Inl KeyError | Some v \<Rightarrow> Inr v)"

text \<open>
  Modelled from the spec: \<^verbatim>\<open>Parameter.set_data\<close> belongs to the target framework and is
  not part of the script. The specification says of it that the assignment fails when the
  shape of the value disagrees with the shape of the pre-allocated parameter, and that it
  changes the parameter storage in place. \<open>set_data mx_params name v\<close> is
  \<^verbatim>\<open>mx_params[name].set_data(v)\<close>.
\<close>

definition set_data :: "'a params \<Rightarrow> string \<Rightarrow> 'a ndarray \<Rightarrow> error + 'a params" where
  "set_data mx_params name v =
     (case getitem mx_params name of
        Inl e \<Rightarrow> Inl e
      | Inr slot \<Rightarrow>
          if shape slot \<noteq> shape v then Inl ShapeMismatchError
          else Inr (AList.update name v mx_params))"

subsection \<open>The materializer\<close>

text \<open>
  The loop over \<^verbatim>\<open>name_map.items()\<close> in \<open>convert_tf_model\<close>. The state is the set
  \<open>all_keys\<close> (a list; \<^verbatim>\<open>all_keys.remove(k)\<close> raises \<^verbatim>\<open>KeyError\<close> when \<open>k\<close> is not
  a member) and the parameter store.
\<close>

fun materialize ::
  "'a params \<Rightarrow> name_map \<Rightarrow> string list \<times> 'a params \<Rightarrow> error + string list \<times> 'a params" where
  "materialize tf_params [] st = Inr st"
| "materialize tf_params ((src_name, dst_name) # rest) (all_keys, mx_params) =
     (case getitem tf_params src_name of
        Inl e \<Rightarrow> Inl e
      | Inr tf_param_val \<Rightarrow>
          (case dst_name of
             None \<Rightarrow> materialize tf_params rest (all_keys, mx_params)
           | Some dst \<Rightarrow>
               if dst \<notin> set all_keys then Inl KeyError
               else
                 (case set_data mx_params dst
                         (if endswith ''kernel'' src_name then T tf_param_val
                          else tf_param_val) of
                    Inl e \<Rightarrow> Inl e
                  | Inr mx_params' \<Rightarrow>
                      materialize tf_params rest (removeAll dst all_keys, mx_params'))))"

subsection \<open>The completeness check\<close>

definition disc_embed_params :: "string list" where
  "disc_embed_params =
   [''backbone_model.embed_layer_norm.beta'',
    ''backbone_model.embed_layer_norm.gamma'',
    ''backbone_model.token_pos_embed._embed.weight'',
    ''backbone_model.token_type_embed.weight'',
    ''mlm_decoder.3.weight'',
    ''backbone_model.word_embed.weight'']"

text \<open>
  A source name whose parameter the generator shares with the discriminator: the target
  name it would get in the generator role is one of \<open>disc_embed_params\<close>.
\<close>

definition tied_to_disc :: "string \<Rightarrow> bool" where
  "tied_to_disc source_name =
     (apply_rules CONVERT_MAP (''backbone_model.'' @ source_name) \<in> set disc_embed_params)"

text \<open>
  \<^verbatim>\<open>re.match(r'^(backbone_model\.){0,1}encoder\.all_encoder_layers\.[\d]+\.attn_qkv\.(weight|bias)$', key)\<close>.
  The digits \<^verbatim>\<open>[\d]+\<close> are followed by a dot, so the longest run of digits is the
  only candidate. Python's \<^verbatim>\<open>$\<close> matches at the end of the string and also before a
  newline that ends the string.
\<close>

definition is_digit :: "char \<Rightarrow> bool" where
  "is_digit c = (c \<in> set ''0123456789'')"

definition strip_prefix :: "string \<Rightarrow> string \<Rightarrow> string option" where
  "strip_prefix p s = (if startswith p s then Some (drop (length p) s) else None)"

definition at_end :: "string \<Rightarrow> bool" where
  "at_end s = (s = [] \<or> s = [CHR 0x0A])"

definition match_suffix :: "string \<Rightarrow> bool" where
  "match_suffix s =
     ((case strip_prefix ''weight'' s of Some e \<Rightarrow> at_end e | None \<Rightarrow> False) \<or>
      (case strip_prefix ''bias'' s of Some e \<Rightarrow> at_end e | None \<Rightarrow> False))"

definition match_encoder :: "string \<Rightarrow> bool" where
  "match_encoder s =
     (case strip_prefix ''encoder.all_encoder_layers.'' s of
        None \<Rightarrow> False
      | Some r \<Rightarrow>
          takeWhile is_digit r \<noteq> [] \<and>
          (case strip_prefix ''.attn_qkv.'' (dropWhile is_digit r) of
             None \<Rightarrow> False
           | Some e \<Rightarrow> match_suffix e))"

definition qkv_match :: "string \<Rightarrow> bool" where
  "qkv_match key =
     ((case strip_prefix ''backbone_model.'' key of
         Some r \<Rightarrow> match_encoder r
       | None \<Rightarrow> False) \<or>
      match_encoder key)"

text \<open>
  The loop over the keys left in \<open>all_keys\<close>; a failed \<^verbatim>\<open>assert\<close> raises
  \<^verbatim>\<open>AssertionError\<close>.
\<close>

fun check_leftover :: "string \<Rightarrow> string list \<Rightarrow> error + unit" where
  "check_leftover convert_type [] = Inr ()"
| "check_leftover convert_type (key # all_keys) =
     (if convert_type = ''gen'' \<and> key \<in> set disc_embed_params then
        check_leftover convert_type all_keys
      else if \<not> qkv_match key then Inl AssertionError
      else check_leftover convert_type all_keys)"

subsection \<open>The merger of the query, key and value projections\<close>

text \<open>\<^verbatim>\<open>'{}'.format(n)\<close> for a number of \<^verbatim>\<open>range\<close>: its decimal digits.\<close>

fun str_nat :: "nat \<Rightarrow> string" where
  "str_nat n =
     (if n < 10 then [''0123456789'' ! n]
      else str_nat (n div 10) @ [''0123456789'' ! (n mod 10)])"

definition convert_qkv_weights ::
  "'a params \<Rightarrow> 'a params \<Rightarrow> string \<Rightarrow> string \<Rightarrow> error + 'a params" where
  "convert_qkv_weights tf_params mx_params tf_prefix mx_prefix =
     (case getitem tf_params (tf_prefix @ ''/query/kernel'') of Inl e \<Rightarrow> Inl e
      | Inr query_weight \<Rightarrow>
     (case getitem tf_params (tf_prefix @ ''/key/kernel'') of Inl e \<Rightarrow> Inl e
      | Inr key_weight \<Rightarrow>
     (case getitem tf_params (tf_prefix @ ''/value/kernel'') of Inl e \<Rightarrow> Inl e
      | Inr value_weight \<Rightarrow>
     (case getitem mx_params (mx_prefix @ ''.attn_qkv.weight'') of Inl e \<Rightarrow> Inl e
      | Inr _ \<Rightarrow>
     (case concatenate [query_weight, key_weight, value_weight] 1 of Inl e \<Rightarrow> Inl e
      | Inr w \<Rightarrow>
     (case set_data mx_params (mx_prefix @ ''.attn_qkv.weight'') (T w) of Inl e \<Rightarrow> Inl e
      | Inr mx_params1 \<Rightarrow>
     (case getitem tf_params (tf_prefix @ ''/query/bias'') of Inl e \<Rightarrow> Inl e
      | Inr query_bias \<Rightarrow>
     (case getitem tf_params (tf_prefix @ ''/key/bias'') of Inl e \<Rightarrow> Inl e
      | Inr key_bias \<Rightarrow>
     (case getitem tf_params (tf_prefix @ ''/value/bias'') of Inl e \<Rightarrow> Inl e
      | Inr value_bias \<Rightarrow>
     (case getitem mx_params1 (mx_prefix @ ''.attn_qkv.bias'') of Inl e \<Rightarrow> Inl e
      | Inr _ \<Rightarrow>
     (case concatenate [query_bias, key_bias, value_bias] 0 of Inl e \<Rightarrow> Inl e
      | Inr b \<Rightarrow> set_data mx_params1 (mx_prefix @ ''.attn_qkv.bias'') b)))))))))))"

text \<open>The two prefixes of a layer, as the loop over the layers computes them.\<close>

definition mx_prefix_of :: "string \<Rightarrow> nat \<Rightarrow> string" where
  "mx_prefix_of convert_type layer_id =
     (let mx_prefix = ''encoder.all_encoder_layers.'' @ str_nat layer_id
      in if convert_type = ''gen'' then ''backbone_model.'' @ mx_prefix
         else if convert_type = ''disc'' then ''backbone_model.'' @ mx_prefix
         else mx_prefix)"

definition tf_prefix_of :: "string \<Rightarrow> nat \<Rightarrow> string" where
  "tf_prefix_of convert_type layer_id =
     (if convert_type = ''gen'' then
        ''generator/encoder/layer_'' @ str_nat layer_id @ ''/attention/self''
      else if convert_type = ''disc'' then
        ''electra/encoder/layer_'' @ str_nat layer_id @ ''/attention/self''
      else ''electra/encoder/layer_'' @ str_nat layer_id @ ''/attention/self'')"

text \<open>\<^verbatim>\<open>for layer_id in range(cfg.MODEL.num_layers)\<close>, over the layers still to do.\<close>

fun merge_layers ::
  "string \<Rightarrow> 'a params \<Rightarrow> nat list \<Rightarrow> 'a params \<Rightarrow> error + 'a params" where
  "merge_layers convert_type tf_params [] mx_params = Inr mx_params"
| "merge_layers convert_type tf_params (layer_id # layers) mx_params =
     (case convert_qkv_weights tf_params mx_params
             (tf_prefix_of convert_type layer_id) (mx_prefix_of convert_type layer_id) of
        Inl e \<Rightarrow> Inl e
      | Inr mx_params' \<Rightarrow> merge_layers convert_type tf_params layers mx_params')"

text \<open>The names the merger writes for a role and a number of layers.\<close>

definition merger_filled :: "string \<Rightarrow> nat \<Rightarrow> string list" where
  "merger_filled convert_type num_layers =
     concat (map (\<lambda>layer_id.
               [mx_prefix_of convert_type layer_id @ ''.attn_qkv.weight'',
                mx_prefix_of convert_type layer_id @ ''.attn_qkv.bias''])
             [0..<num_layers])"

subsection \<open>One role of the conversion\<close>

text \<open>
  The body of \<^verbatim>\<open>for convert_type in ['backbone', 'disc', 'gen']\<close> up to the merger:
  the name map, the materializer, the completeness check, the merger. \<open>mx_params\<close> is
  \<^verbatim>\<open>model.collect_params()\<close> of the model of the role.
\<close>

definition convert_role ::
  "string \<Rightarrow> string list \<Rightarrow> 'a params \<Rightarrow> 'a params \<Rightarrow> nat \<Rightarrow> error + 'a params" where
  "convert_role convert_type tf_names tf_params mx_params num_layers =
     (case get_name_map tf_names convert_type of Inl e \<Rightarrow> Inl e
      | Inr name_map \<Rightarrow>
     (case materialize tf_params name_map (remdups (map fst mx_params), mx_params) of
        Inl e \<Rightarrow> Inl e
      | Inr (all_keys, mx_params1) \<Rightarrow>
     (case check_leftover convert_type all_keys of Inl e \<Rightarrow> Inl e
      | Inr _ \<Rightarrow> merge_layers convert_type tf_params [0..<num_layers] mx_params1)))"

subsection \<open>The configuration\<close>

text \<open>
  \<open>config_dict\<close> is built by \<open>get_dict_config\<close> from the configuration object of the
  ELECTRA library (\<^verbatim>\<open>bert_config.to_dict()\<close>) and three more keys, so every key that
  \<open>convert_tf_config\<close> reads is present: a record, one field for each key.
\<close>

record config_dict =
  cd_vocab_size :: int
  cd_hidden_size :: int
  cd_embedding_size :: int
  cd_intermediate_size :: int
  cd_max_position_embeddings :: int
  cd_num_attention_heads :: int
  cd_num_hidden_layers :: int
  cd_hidden_act :: string
  cd_type_vocab_size :: int
  cd_hidden_dropout_prob :: real
  cd_attention_probs_dropout_prob :: real
  cd_generator_layers :: real
  cd_generator_hidden_size :: real
  cd_initializer_range :: real

text \<open>
  The target configuration: the fields that \<open>convert_tf_config\<close> assigns, and a flag for
  \<^verbatim>\<open>freeze()\<close> and \<^verbatim>\<open>defrost()\<close>. The configuration it starts from,
  \<^verbatim>\<open>ElectraModel.get_cfg().clone()\<close>, is a parameter; what else it holds stays in the
  extension of the records.
\<close>

record model_cfg =
  vocab_size :: int
  units :: int
  embed_size :: int
  hidden_size :: int
  max_length :: int
  num_heads :: int
  num_layers :: int
  pos_embed_type :: string
  activation :: string
  layer_norm_eps :: real
  num_token_types :: int
  hidden_dropout_prob :: real
  attention_dropout_prob :: real
  dtype :: string
  generator_layers_scale :: real
  generator_units_scale :: real

record 'm cfg =
  MODEL :: "'m model_cfg_scheme"
  INITIALIZER_weight :: "string \<times> int \<times> real"
  INITIALIZER_bias :: "string list"
  VERSION :: int
  frozen :: bool

definition convert_tf_config ::
  "('m, 'c) cfg_scheme \<Rightarrow> 'd config_dict_scheme \<Rightarrow> int \<Rightarrow> error + ('m, 'c) cfg_scheme" where
  "convert_tf_config base config_dict vocab_size' =
     (if vocab_size' \<noteq> cd_vocab_size config_dict then Inl AssertionError
      else
        let cfg = base\<lparr>frozen := False\<rparr>;
            cfg = cfg\<lparr>MODEL := (MODEL cfg)\<lparr>
              vocab_size := vocab_size',
              units := cd_hidden_size config_dict,
              embed_size := cd_embedding_size config_dict,
              hidden_size := cd_intermediate_size config_dict,
              max_length := cd_max_position_embeddings config_dict,
              num_heads := cd_num_attention_heads config_dict,
              num_layers := cd_num_hidden_layers config_dict,
              pos_embed_type := ''learned'',
              activation := cd_hidden_act config_dict,
              layer_norm_eps := 1 / 10 ^ 12,
              num_token_types := cd_type_vocab_size config_dict,
              hidden_dropout_prob := cd_hidden_dropout_prob config_dict,
              attention_dropout_prob := cd_attention_probs_dropout_prob config_dict,
              dtype := ''float32'',
              generator_layers_scale := cd_generator_layers config_dict,
              generator_units_scale := cd_generator_hidden_size config_dict\<rparr>\<rparr>;
            cfg = cfg\<lparr>INITIALIZER_weight := (''truncnorm'', 0, cd_initializer_range config_dict),
                      INITIALIZER_bias := [''zeros''],
                      VERSION := 1\<rparr>
        in Inr (cfg\<lparr>frozen := True\<rparr>))"

text \<open>
  The loop of \<open>convert_tf_assets\<close> over the file names of the directory:
  \<^verbatim>\<open>if ele.endswith('.txt'): assert vocab_path is None; vocab_path = ele\<close>.
\<close>

fun find_vocab :: "string option \<Rightarrow> string list \<Rightarrow> error + string option" where
  "find_vocab vocab_path [] = Inr vocab_path"
| "find_vocab vocab_path (ele # file_names) =
     (if endswith ''.txt'' ele then
        (if vocab_path \<noteq> None then Inl AssertionError
         else find_vocab (Some ele) file_names)
      else find_vocab vocab_path file_names)"

text \<open>\<^verbatim>\<open>os.path.join(a, b)\<close> of two POSIX paths.\<close>

definition path_join :: "string \<Rightarrow> string \<Rightarrow> string" where
  "path_join a b =
     (if startswith ''/'' b then b
      else if a = [] \<or> endswith ''/'' a then a @ b
      else a @ ''/'' @ b)"

text \<open>
  \<open>convert_tf_assets\<close>. The directory is the list \<open>file_names\<close> of
  \<^verbatim>\<open>os.listdir(tf_assets_dir)\<close>; \<open>readlines path\<close> is the list of the lines of the file
  at \<open>path\<close>; \<open>config_dict\<close> is the result of \<open>get_dict_config\<close>. When \<open>vocab_path\<close> is
  the empty string the script does not bind \<open>vocab_size\<close>, and the use of it raises.
\<close>

definition convert_tf_assets ::
  "('m, 'c) cfg_scheme \<Rightarrow> 'd config_dict_scheme \<Rightarrow> (string \<Rightarrow> string list) \<Rightarrow>
   string list \<Rightarrow> string \<Rightarrow> error + ('m, 'c) cfg_scheme \<times> string" where
  "convert_tf_assets base config_dict readlines file_names tf_assets_dir =
     (case find_vocab None file_names of
        Inl e \<Rightarrow> Inl e
      | Inr None \<Rightarrow> Inl AssertionError
      | Inr (Some ele) \<Rightarrow>
          if ele \<noteq> [] then
            (let vocab_path = path_join tf_assets_dir ele;
                 vocab_size' = int (length (readlines vocab_path))
             in case convert_tf_config base config_dict vocab_size' of
                  Inl e \<Rightarrow> Inl e
                | Inr cfg \<Rightarrow> Inr (cfg, vocab_path))
          else Inl UnboundLocalError)"

subsection \<open>A small configuration\<close>

text \<open>
  The configuration of a small checkpoint (two layers, hidden size 8, vocabulary size 50)
  and a configuration to start from, for the examples below.
\<close>

definition example_config_dict :: config_dict where
  "example_config_dict =
     \<lparr>cd_vocab_size = 50, cd_hidden_size = 8, cd_embedding_size = 8,
      cd_intermediate_size = 32, cd_max_position_embeddings = 16,
      cd_num_attention_heads = 2, cd_num_hidden_layers = 2, cd_hidden_act = ''gelu'',
      cd_type_vocab_size = 2, cd_hidden_dropout_prob = 1 / 10,
      cd_attention_probs_dropout_prob = 1 / 10, cd_generator_layers = 1,
      cd_generator_hidden_size = 1 / 4, cd_initializer_range = 2 / 100\<rparr>"

definition example_base_cfg :: "unit cfg" where
  "example_base_cfg =
     \<lparr>MODEL = \<lparr>vocab_size = 30000, units = 256, embed_size = 128, hidden_size = 1024,
                max_length = 512, num_heads = 4, num_layers = 12,
                pos_embed_type = ''learned'', activation = ''gelu'',
                layer_norm_eps = 1 / 10 ^ 12, num_token_types = 2,
                hidden_dropout_prob = 1 / 10, attention_dropout_prob = 1 / 10,
                dtype = ''float32'', generator_layers_scale = 1,
                generator_units_scale = 1 / 4\<rparr>,
      INITIALIZER_weight = (''truncnorm'', 0, 2 / 100),
      INITIALIZER_bias = [''zeros''], VERSION = 1, frozen = True\<rparr>"

section \<open>Properties of the name map\<close>

subsection \<open>The loop of \<open>get_name_map\<close>\<close>

lemma role_filter_valid:
  "r = ''backbone'' \<or> r = ''disc'' \<or> r = ''gen'' \<Longrightarrow> \<exists>t. role_filter r n = Inr t"
  by (auto simp: role_filter_def)

lemma role_filter_invalid:
  "\<not> (r = ''backbone'' \<or> r = ''disc'' \<or> r = ''gen'') \<Longrightarrow>
   role_filter r n = Inl NotImplementedError"
  by (simp add: role_filter_def)

lemma loop_valid:
  assumes r: "r = ''backbone'' \<or> r = ''disc'' \<or> r = ''gen''"
  shows "\<exists>nm'. get_name_map_loop rules r nm names = Inr nm' \<and>
     (\<forall>n. map_of nm' n =
        (if n \<in> set names \<and> entry_of rules r n \<noteq> None then entry_of rules r n
         else map_of nm n))"
proof (induction names arbitrary: nm)
  case Nil
  then show ?case by simp
next
  case (Cons a names)
  from role_filter_valid [OF r, of a] obtain t where t: "role_filter r a = Inr t" ..
  show ?case
  proof (cases t)
    case None
    with t have e: "entry_of rules r a = None" by (simp add: entry_of_def)
    from Cons.IH [of nm] obtain nm' where
      "get_name_map_loop rules r nm names = Inr nm'"
      "\<forall>n. map_of nm' n =
         (if n \<in> set names \<and> entry_of rules r n \<noteq> None then entry_of rules r n
          else map_of nm n)"
      by blast
    with t None e show ?thesis by auto
  next
    case (Some tn)
    let ?v = "if contains ''self/'' a then None else Some (apply_rules rules tn)"
    from t Some have e: "entry_of rules r a = Some ?v" by (simp add: entry_of_def)
    from Cons.IH [of "AList.update a ?v nm"] obtain nm' where
      1: "get_name_map_loop rules r (AList.update a ?v nm) names = Inr nm'" and
      2: "\<forall>n. map_of nm' n =
            (if n \<in> set names \<and> entry_of rules r n \<noteq> None then entry_of rules r n
             else map_of (AList.update a ?v nm) n)"
      by blast
    from 1 t Some have "get_name_map_loop rules r nm (a # names) = Inr nm'"
      by (cases "contains ''self/'' a") simp_all
    moreover from 2 e have "\<forall>n. map_of nm' n =
        (if n \<in> set (a # names) \<and> entry_of rules r n \<noteq> None then entry_of rules r n
         else map_of nm n)"
      by (auto simp: update_conv')
    ultimately show ?thesis by blast
  qed
qed

lemma loop_invalid:
  "\<not> (r = ''backbone'' \<or> r = ''disc'' \<or> r = ''gen'') \<Longrightarrow>
   get_name_map_loop rules r nm names = (if names = [] then Inr nm else Inl NotImplementedError)"
  by (cases names) (simp_all add: role_filter_invalid)

lemma loop_distinct:
  "distinct (map fst nm) \<Longrightarrow> get_name_map_loop rules r nm names = Inr nm' \<Longrightarrow>
   distinct (map fst nm')"
proof (induction names arbitrary: nm)
  case Nil
  then show ?case by simp
next
  case (Cons a names)
  have d: "\<And>v. distinct (map fst (AList.update a v nm))"
    using Cons.prems(1) by (rule distinct_update)
  from Cons.prems(2) show ?case
    using Cons.IH [OF Cons.prems(1)] Cons.IH [OF d]
    by (auto split: sum.splits option.splits if_splits)
qed

lemma get_name_map_with_valid:
  assumes "r = ''backbone'' \<or> r = ''disc'' \<or> r = ''gen''"
  shows "\<exists>nm. get_name_map_with rules names r = Inr nm \<and>
     (\<forall>n. map_of nm n = (if n \<in> set names then entry_of rules r n else None))"
proof -
  from loop_valid [OF assms, of rules "[]" names] obtain nm where
    "get_name_map_loop rules r [] names = Inr nm"
    "\<forall>n. map_of nm n =
       (if n \<in> set names \<and> entry_of rules r n \<noteq> None then entry_of rules r n
        else map_of [] n)"
    by blast
  then show ?thesis by (auto simp: get_name_map_with_def)
qed

lemma get_name_map_with_Inr:
  assumes "get_name_map_with rules names r = Inr nm" and "names \<noteq> []"
  shows "r = ''backbone'' \<or> r = ''disc'' \<or> r = ''gen''"
  using assms loop_invalid [of r rules "[]" names]
  by (auto simp: get_name_map_with_def)

lemma get_name_map_with_map_of:
  assumes "get_name_map_with rules names r = Inr nm"
  shows "map_of nm n = (if n \<in> set names then entry_of rules r n else None)"
proof (cases "names = []")
  case True
  with assms show ?thesis by (simp add: get_name_map_with_def)
next
  case False
  from get_name_map_with_Inr [OF assms False]
  have "r = ''backbone'' \<or> r = ''disc'' \<or> r = ''gen''" .
  from get_name_map_with_valid [OF this, of rules names] assms show ?thesis by auto
qed

lemma get_name_map_distinct:
  "get_name_map_with rules names r = Inr nm \<Longrightarrow> distinct (map fst nm)"
  unfolding get_name_map_with_def by (rule loop_distinct [of "[]"]) simp_all

subsection \<open>Claims about the name map\<close>

text \<open>
  Claim C4. For a source name that passes the role filter, the name map holds the sentinel
  exactly when the name contains \<^verbatim>\<open>self/\<close>; otherwise it holds the rewritten target name.
  The statement is about any list of rewrite rules (\<open>get_name_map\<close> is
  \<open>get_name_map_with CONVERT_MAP\<close>): the entry of a name with \<^verbatim>\<open>self/\<close> is the sentinel
  whatever the rules are, so no rule is applied to it.
\<close>

theorem sentinel_iff_self:
  assumes "get_name_map_with rules tf_names convert_type = Inr nm"
    and "n \<in> set tf_names"
    and "role_filter convert_type n = Inr (Some t)"
  shows "(map_of nm n = Some None \<longleftrightarrow> contains ''self/'' n) \<and>
         (\<not> contains ''self/'' n \<longrightarrow> map_of nm n = Some (Some (apply_rules rules t)))"
  using get_name_map_with_map_of [OF assms(1), of n] assms(2,3)
  by (simp add: entry_of_def)

theorem sentinel_iff_self_witness:
  "get_name_map_with CONVERT_MAP
     [''electra/encoder/layer_0/attention/self/query/kernel'',
      ''electra/encoder/layer_0/attention/output/dense/kernel''] ''disc'' =
   Inr [(''electra/encoder/layer_0/attention/self/query/kernel'', None),
        (''electra/encoder/layer_0/attention/output/dense/kernel'',
         Some ''backbone_model.encoder.all_encoder_layers.0.attention_proj.weight'')] \<and>
   ''electra/encoder/layer_0/attention/self/query/kernel'' \<in>
     set [''electra/encoder/layer_0/attention/self/query/kernel'',
          ''electra/encoder/layer_0/attention/output/dense/kernel''] \<and>
   role_filter ''disc'' ''electra/encoder/layer_0/attention/self/query/kernel'' =
     Inr (Some ''backbone_model.electra/encoder/layer_0/attention/self/query/kernel'') \<and>
   (map_of [(''electra/encoder/layer_0/attention/self/query/kernel'', None),
            (''electra/encoder/layer_0/attention/output/dense/kernel'',
             Some ''backbone_model.encoder.all_encoder_layers.0.attention_proj.weight'')]
      ''electra/encoder/layer_0/attention/self/query/kernel'' = Some None \<longleftrightarrow>
    contains ''self/'' ''electra/encoder/layer_0/attention/self/query/kernel'')"
proof -
  let ?q = "''electra/encoder/layer_0/attention/self/query/kernel''"
  let ?d = "''electra/encoder/layer_0/attention/output/dense/kernel''"
  let ?nm = "[(?q, None),
              (?d, Some ''backbone_model.encoder.all_encoder_layers.0.attention_proj.weight'')]"
  have rf: "role_filter ''disc'' ?q = Inr (Some (''backbone_model.'' @ ?q))"
    by (simp add: role_filter_def)
  have ar: "apply_rules CONVERT_MAP (''backbone_model.'' @ ?d) =
      ''backbone_model.encoder.all_encoder_layers.0.attention_proj.weight''"
    by (simp add: CONVERT_MAP_def)
  have gm: "get_name_map_with CONVERT_MAP [?q, ?d] ''disc'' = Inr ?nm"
    using ar by (simp add: get_name_map_with_def role_filter_def)
  have mem: "?q \<in> set [?q, ?d]" by simp
  from sentinel_iff_self [OF gm mem rf] gm mem rf show ?thesis by simp
qed

text \<open>
  Claim C5. The domain of the name map is, for the backbone role, the source names that
  contain \<^verbatim>\<open>electra\<close>; for the discriminator role, the names that do not contain
  \<^verbatim>\<open>generator\<close>; for the generator role, the names that contain \<^verbatim>\<open>generator\<close>. In the
  last two roles the name is prefixed with \<^verbatim>\<open>backbone_model.\<close> before the rules are
  applied; in the backbone role it is not.
\<close>

theorem role_filter_domains:
  "(\<exists>nm. get_name_map tf_names ''backbone'' = Inr nm \<and>
      fst ` set nm = {n \<in> set tf_names. contains ''electra'' n} \<and>
      (\<forall>n \<in> set tf_names. contains ''electra'' n \<and> \<not> contains ''self/'' n \<longrightarrow>
         map_of nm n = Some (Some (apply_rules CONVERT_MAP n)))) \<and>
   (\<exists>nm. get_name_map tf_names ''disc'' = Inr nm \<and>
      fst ` set nm = {n \<in> set tf_names. \<not> contains ''generator'' n} \<and>
      (\<forall>n \<in> set tf_names. \<not> contains ''generator'' n \<and> \<not> contains ''self/'' n \<longrightarrow>
         map_of nm n = Some (Some (apply_rules CONVERT_MAP (''backbone_model.'' @ n))))) \<and>
   (\<exists>nm. get_name_map tf_names ''gen'' = Inr nm \<and>
      fst ` set nm = {n \<in> set tf_names. contains ''generator'' n} \<and>
      (\<forall>n \<in> set tf_names. contains ''generator'' n \<and> \<not> contains ''self/'' n \<longrightarrow>
         map_of nm n = Some (Some (apply_rules CONVERT_MAP (''backbone_model.'' @ n)))))"
proof -
  have dom_eq: "fst ` set nm = {n. map_of nm n \<noteq> None}" for nm :: name_map
    using dom_map_of_conv_image_fst [of nm] by (simp add: dom_def)
  have b: "\<exists>nm. get_name_map tf_names ''backbone'' = Inr nm \<and>
      fst ` set nm = {n \<in> set tf_names. contains ''electra'' n} \<and>
      (\<forall>n \<in> set tf_names. contains ''electra'' n \<and> \<not> contains ''self/'' n \<longrightarrow>
         map_of nm n = Some (Some (apply_rules CONVERT_MAP n)))"
    using get_name_map_with_valid [of "''backbone''" CONVERT_MAP tf_names]
    by (auto simp: get_name_map_def dom_eq entry_of_def role_filter_def)
  have d: "\<exists>nm. get_name_map tf_names ''disc'' = Inr nm \<and>
      fst ` set nm = {n \<in> set tf_names. \<not> contains ''generator'' n} \<and>
      (\<forall>n \<in> set tf_names. \<not> contains ''generator'' n \<and> \<not> contains ''self/'' n \<longrightarrow>
         map_of nm n = Some (Some (apply_rules CONVERT_MAP (''backbone_model.'' @ n))))"
    using get_name_map_with_valid [of "''disc''" CONVERT_MAP tf_names]
    by (auto simp: get_name_map_def dom_eq entry_of_def role_filter_def)
  have g: "\<exists>nm. get_name_map tf_names ''gen'' = Inr nm \<and>
      fst ` set nm = {n \<in> set tf_names. contains ''generator'' n} \<and>
      (\<forall>n \<in> set tf_names. contains ''generator'' n \<and> \<not> contains ''self/'' n \<longrightarrow>
         map_of nm n = Some (Some (apply_rules CONVERT_MAP (''backbone_model.'' @ n))))"
    using get_name_map_with_valid [of "''gen''" CONVERT_MAP tf_names]
    by (auto simp: get_name_map_def dom_eq entry_of_def role_filter_def)
  from b d g show ?thesis by blast
qed

theorem role_filter_domains_witness:
  "(\<exists>nm. get_name_map [''electra/embeddings/word_embeddings'',
                       ''generator/embeddings_project/kernel''] ''disc'' = Inr nm \<and>
      fst ` set nm = {''electra/embeddings/word_embeddings''} \<and>
      map_of nm ''electra/embeddings/word_embeddings'' =
        Some (Some ''backbone_model.word_embed.weight'')) \<and>
   (\<exists>nm. get_name_map [''electra/embeddings/word_embeddings'',
                       ''generator/embeddings_project/kernel''] ''gen'' = Inr nm \<and>
      fst ` set nm = {''generator/embeddings_project/kernel''} \<and>
      map_of nm ''generator/embeddings_project/kernel'' =
        Some (Some ''backbone_model.embed_factorized_proj.weight''))"
proof -
  let ?w = "''electra/embeddings/word_embeddings''"
  let ?g = "''generator/embeddings_project/kernel''"
  have 1: "apply_rules CONVERT_MAP (''backbone_model.'' @ ?w) = ''backbone_model.word_embed.weight''"
    by (simp add: CONVERT_MAP_def)
  have 2: "apply_rules CONVERT_MAP (''backbone_model.'' @ ?g) =
      ''backbone_model.embed_factorized_proj.weight''"
    by (simp add: CONVERT_MAP_def)
  have s: "{n \<in> set [?w, ?g]. \<not> contains ''generator'' n} = {?w}"
    "{n \<in> set [?w, ?g]. contains ''generator'' n} = {?g}"
    by auto
  from role_filter_domains [of "[?w, ?g]"] show ?thesis
    unfolding s using 1 2 by auto
qed

text \<open>
  Claim C6, as amended. In the generator role the name map holds the sentinel for a name
  exactly when the name is a source name that contains \<^verbatim>\<open>generator\<close> and \<^verbatim>\<open>self/\<close>. A
  source name of a parameter tied to the discriminator is not given the sentinel for being
  tied: without \<^verbatim>\<open>generator\<close> in it (as \<^verbatim>\<open>electra/embeddings/word_embeddings\<close>) it is
  absent from the name map, and with \<^verbatim>\<open>generator\<close> and without \<^verbatim>\<open>self/\<close> it is mapped to
  its target name, one of \<open>disc_embed_params\<close>. The tied parameters are passed over later,
  by the completeness check.
\<close>

theorem tied_names_not_sentinel:
  assumes "get_name_map tf_names ''gen'' = Inr nm"
  shows "(map_of nm n = Some None \<longleftrightarrow>
            n \<in> set tf_names \<and> contains ''generator'' n \<and> contains ''self/'' n) \<and>
         (\<not> contains ''generator'' n \<longrightarrow> map_of nm n = None) \<and>
         (tied_to_disc n \<and> n \<in> set tf_names \<and> contains ''generator'' n \<and>
            \<not> contains ''self/'' n \<longrightarrow>
            (\<exists>d \<in> set disc_embed_params. map_of nm n = Some (Some d)))"
  using get_name_map_with_map_of [OF assms [unfolded get_name_map_def], of n]
  by (auto simp: entry_of_def role_filter_def tied_to_disc_def)

theorem tied_names_not_sentinel_witness:
  "get_name_map [''electra/embeddings/word_embeddings'',
                 ''generator/encoder/layer_0/attention/self/key/bias''] ''gen'' =
     Inr [(''generator/encoder/layer_0/attention/self/key/bias'', None)] \<and>
   tied_to_disc ''electra/embeddings/word_embeddings'' \<and>
   map_of [(''generator/encoder/layer_0/attention/self/key/bias'', None :: string option)]
     ''electra/embeddings/word_embeddings'' = None"
proof -
  let ?w = "''electra/embeddings/word_embeddings''"
  let ?k = "''generator/encoder/layer_0/attention/self/key/bias''"
  have gm: "get_name_map [?w, ?k] ''gen'' = Inr [(?k, None)]"
    by (simp add: get_name_map_def get_name_map_with_def role_filter_def)
  have t: "tied_to_disc ?w"
    by (simp add: tied_to_disc_def CONVERT_MAP_def disc_embed_params_def)
  from tied_names_not_sentinel [OF gm, of ?w] gm t show ?thesis by simp
qed

text \<open>
  The claim as it stands fails: \<^verbatim>\<open>electra/embeddings/word_embeddings\<close> is the source name
  of the word embedding that the generator shares with the discriminator, and the name map
  of the generator role does not hold it at all.
\<close>

theorem tied_names_sentinel_counterexample:
  "tied_to_disc ''electra/embeddings/word_embeddings'' \<and>
   get_name_map [''electra/embeddings/word_embeddings'',
                 ''generator/encoder/layer_0/output/dense/bias''] ''gen'' =
     Inr [(''generator/encoder/layer_0/output/dense/bias'',
           Some ''backbone_model.encoder.all_encoder_layers.0.ffn.ffn_2.bias'')] \<and>
   map_of [(''generator/encoder/layer_0/output/dense/bias'',
            Some ''backbone_model.encoder.all_encoder_layers.0.ffn.ffn_2.bias'')]
     ''electra/embeddings/word_embeddings'' \<noteq> Some None"
proof -
  have t: "tied_to_disc ''electra/embeddings/word_embeddings''"
    by (simp add: tied_to_disc_def CONVERT_MAP_def disc_embed_params_def)
  have a: "apply_rules CONVERT_MAP ''backbone_model.generator/encoder/layer_0/output/dense/bias'' =
      ''backbone_model.encoder.all_encoder_layers.0.ffn.ffn_2.bias''"
    by (simp add: CONVERT_MAP_def)
  show ?thesis
    using t a by (simp add: get_name_map_def get_name_map_with_def role_filter_def)
qed

text \<open>
  Claim C7. The order of the rewrite rules matters: there is a source name on which the
  rules of \<open>CONVERT_MAP\<close>, applied one after the other in another order, give another
  target name, and so another name map.
\<close>

theorem rules_order_sensitive:
  "\<exists>name rules'. mset rules' = mset CONVERT_MAP \<and>
     apply_rules rules' name \<noteq> apply_rules CONVERT_MAP name \<and>
     get_name_map_with rules' [name] ''backbone'' \<noteq> get_name_map [name] ''backbone''"
proof -
  let ?n = "''electra/encoder/layer_0/output/dense/kernel''"
  have 1: "apply_rules CONVERT_MAP ?n = ''encoder.all_encoder_layers.0.ffn.ffn_2.weight''"
    by (simp add: CONVERT_MAP_def)
  have 2: "apply_rules (rev CONVERT_MAP) ?n =
      ''electra.encoder.all_encoder_layers.0.output.dense.weight''"
    by (simp add: CONVERT_MAP_def)
  have 3: "get_name_map_with rules [?n] ''backbone'' = Inr [(?n, Some (apply_rules rules ?n))]"
    for rules
    by (simp add: get_name_map_with_def role_filter_def)
  have "mset (rev CONVERT_MAP) = mset CONVERT_MAP" by simp
  moreover have "apply_rules (rev CONVERT_MAP) ?n \<noteq> apply_rules CONVERT_MAP ?n"
    unfolding 1 2 by simp
  moreover have "get_name_map_with (rev CONVERT_MAP) [?n] ''backbone'' \<noteq>
      get_name_map [?n] ''backbone''"
    unfolding get_name_map_def 3 1 2 by simp
  ultimately show ?thesis by blast
qed

text \<open>
  Claim C8. The name map depends on the set of source names and on the role only: two
  lists with the same names, in any order and with any repetition, raise the same error or
  give name maps that agree on every name.
\<close>

theorem name_map_pure:
  assumes "set xs = set ys"
  shows "(\<forall>e. get_name_map xs r = Inl e \<longleftrightarrow> get_name_map ys r = Inl e) \<and>
         (\<forall>m1 m2. get_name_map xs r = Inr m1 \<and> get_name_map ys r = Inr m2 \<longrightarrow>
            map_of m1 = map_of m2)"
proof (cases "r = ''backbone'' \<or> r = ''disc'' \<or> r = ''gen''")
  case True
  from get_name_map_with_valid [OF True, of CONVERT_MAP xs]
    get_name_map_with_valid [OF True, of CONVERT_MAP ys] assms
  show ?thesis by (auto simp: get_name_map_def)
next
  case False
  from assms have "xs = [] \<longleftrightarrow> ys = []" by auto
  with loop_invalid [OF False, of CONVERT_MAP "[]" xs]
    loop_invalid [OF False, of CONVERT_MAP "[]" ys]
  show ?thesis by (auto simp: get_name_map_def get_name_map_with_def)
qed

theorem name_map_pure_witness:
  "set [''generator/embeddings_project/bias'', ''electra/embeddings/LayerNorm/beta''] =
   set [''electra/embeddings/LayerNorm/beta'', ''generator/embeddings_project/bias'',
        ''electra/embeddings/LayerNorm/beta''] \<and>
   get_name_map [''generator/embeddings_project/bias'', ''electra/embeddings/LayerNorm/beta'']
     ''backbone'' = Inr [(''electra/embeddings/LayerNorm/beta'', Some ''embed_layer_norm.beta'')] \<and>
   get_name_map [''electra/embeddings/LayerNorm/beta'', ''generator/embeddings_project/bias'',
        ''electra/embeddings/LayerNorm/beta'']
     ''backbone'' = Inr [(''electra/embeddings/LayerNorm/beta'', Some ''embed_layer_norm.beta'')]"
proof -
  let ?g = "''generator/embeddings_project/bias''"
  let ?b = "''electra/embeddings/LayerNorm/beta''"
  have s: "set [?g, ?b] = set [?b, ?g, ?b]" by auto
  have a: "apply_rules CONVERT_MAP ?b = ''embed_layer_norm.beta''"
    by (simp add: CONVERT_MAP_def)
  have 1: "get_name_map [?g, ?b] ''backbone'' = Inr [(?b, Some ''embed_layer_norm.beta'')]"
    using a by (simp add: get_name_map_def get_name_map_with_def role_filter_def)
  have 2: "get_name_map [?b, ?g, ?b] ''backbone'' = Inr [(?b, Some ''embed_layer_norm.beta'')]"
    using a by (simp add: get_name_map_def get_name_map_with_def role_filter_def)
  from name_map_pure [OF s, of "''backbone''"] s 1 2 show ?thesis by simp
qed

text \<open>
  Claim C10, as amended. For a role that is none of \<^verbatim>\<open>backbone\<close>, \<^verbatim>\<open>disc\<close> and
  \<^verbatim>\<open>gen\<close>, \<open>get_name_map\<close> raises \<^verbatim>\<open>NotImplementedError\<close> on every list of source
  names that is not empty; the role is examined in the body of the loop over the names, so
  on the empty list it returns the empty name map.
\<close>

theorem unsupported_role_raises:
  assumes "convert_type \<notin> {''backbone'', ''disc'', ''gen''}"
  shows "(tf_names \<noteq> [] \<longrightarrow> get_name_map tf_names convert_type = Inl NotImplementedError) \<and>
         (tf_names = [] \<longrightarrow> get_name_map tf_names convert_type = Inr [])"
  using assms loop_invalid [of convert_type CONVERT_MAP "[]" tf_names]
  by (auto simp: get_name_map_def get_name_map_with_def)

theorem unsupported_role_raises_witness:
  "''all'' \<notin> {''backbone'', ''disc'', ''gen''} \<and>
   get_name_map [''electra/embeddings/word_embeddings''] ''all'' = Inl NotImplementedError"
proof -
  have r: "''all'' \<notin> {''backbone'', ''disc'', ''gen''}" by simp
  from unsupported_role_raises [OF r, of "[''electra/embeddings/word_embeddings'']"] r
  show ?thesis by simp
qed

text \<open>The claim as it stands fails on the empty list of names.\<close>

theorem unsupported_role_counterexample:
  "''all'' \<notin> {''backbone'', ''disc'', ''gen''} \<and> get_name_map [] ''all'' = Inr [] \<and>
   get_name_map [] ''all'' \<noteq> Inl NotImplementedError"
  by (simp add: get_name_map_def get_name_map_with_def)

section \<open>Properties of the materializer\<close>





lemma materialize_leftover:
  "materialize tf nm (ak, mx) = Inr (ak', mx') \<Longrightarrow>
   set ak' = set ak - {d. \<exists>s. (s, Some d) \<in> set nm}"
proof (induction nm arbitrary: ak mx)
  case Nil
  then show ?case by simp
next
  case (Cons p nm)
  obtain s0 d0 where p: "p = (s0, d0)" by (cases p)
  from Cons.prems(1) p obtain v0 where v0: "getitem tf s0 = Inr v0"
    by (auto split: sum.splits)
  show ?case
  proof (cases d0)
    case None
    with Cons.prems(1) p v0 have "materialize tf nm (ak, mx) = Inr (ak', mx')" by simp
    from Cons.IH [OF this] p None show ?thesis by auto
  next
    case (Some dst)
    with Cons.prems(1) p v0 obtain mx1 where
      rest: "materialize tf nm (removeAll dst ak, mx1) = Inr (ak', mx')"
      by (auto split: sum.splits if_splits)
    from Cons.IH [OF rest] p Some show ?thesis by auto
  qed
qed


subsection \<open>The transposition of a matrix\<close>







section \<open>Properties of the completeness check\<close>

declare str_nat.simps [simp del]

lemma startswith_append: "startswith p (p @ s)"
  by (induction p) auto

lemma startswith_iff: "startswith p s \<longleftrightarrow> (\<exists>r. s = p @ r)"
proof (induction p s rule: startswith.induct)
  case (1 s)
  then show ?case by simp
next
  case (2 p ps)
  then show ?case by simp
next
  case (3 p ps c s)
  then show ?case by auto
qed

lemma strip_prefix_append: "strip_prefix p (p @ s) = Some s"
  by (simp add: strip_prefix_def startswith_append)

lemma digit_nth: "d < 10 \<Longrightarrow> is_digit (''0123456789'' ! d)"
  unfolding is_digit_def by (rule nth_mem) simp


lemma str_nat_digits: "\<forall>c \<in> set (str_nat n). is_digit c"
proof (induction n rule: str_nat.induct)
  case (1 n)
  show ?case
  proof (cases "n < 10")
    case True
    then show ?thesis by (subst str_nat.simps) (simp add: digit_nth)
  next
    case False
    with 1 have "\<forall>c \<in> set (str_nat (n div 10)). is_digit c" by simp
    moreover have "is_digit (''0123456789'' ! (n mod 10))" by (rule digit_nth) simp
    ultimately show ?thesis using False by (subst str_nat.simps) simp
  qed
qed

lemma str_nat_nonempty: "str_nat n \<noteq> []"
  by (subst str_nat.simps) simp



lemma not_digit_dot: "\<not> is_digit CHR ''.''"
  by (simp add: is_digit_def)

lemma takeWhile_str_nat: "takeWhile is_digit (str_nat n @ CHR ''.'' # s) = str_nat n"
  using str_nat_digits [of n] by (simp add: takeWhile_append2 not_digit_dot)

lemma dropWhile_str_nat: "dropWhile is_digit (str_nat n @ CHR ''.'' # s) = CHR ''.'' # s"
  using str_nat_digits [of n] by (simp add: dropWhile_append2 not_digit_dot)

lemma match_encoder_layer:
  "match_encoder (''encoder.all_encoder_layers.'' @ str_nat n @ ''.attn_qkv.weight'')"
  "match_encoder (''encoder.all_encoder_layers.'' @ str_nat n @ ''.attn_qkv.bias'')"
proof -
  have w: "match_suffix ''weight''" and b: "match_suffix ''bias''"
    by (simp_all add: match_suffix_def strip_prefix_def at_end_def)
  have sp: "strip_prefix ''.attn_qkv.'' (''.attn_qkv.'' @ e) = Some e" for e
    by (rule strip_prefix_append)
  have t: "takeWhile is_digit (str_nat n @ ''.attn_qkv.'' @ e) = str_nat n"
    and d: "dropWhile is_digit (str_nat n @ ''.attn_qkv.'' @ e) = ''.attn_qkv.'' @ e" for e
    using takeWhile_str_nat [of n "''attn_qkv.'' @ e"] dropWhile_str_nat [of n "''attn_qkv.'' @ e"]
    by simp_all
  have m: "match_suffix e \<Longrightarrow>
      match_encoder (''encoder.all_encoder_layers.'' @ str_nat n @ ''.attn_qkv.'' @ e)" for e
    unfolding match_encoder_def strip_prefix_append
    by (simp only: option.case t d sp str_nat_nonempty not_False_eq_True simp_thms)
  from m [OF w] show "match_encoder (''encoder.all_encoder_layers.'' @ str_nat n @ ''.attn_qkv.weight'')"
    by simp
  from m [OF b] show "match_encoder (''encoder.all_encoder_layers.'' @ str_nat n @ ''.attn_qkv.bias'')"
    by simp
qed

lemma qkv_match_prefix:
  "qkv_match (mx_prefix_of r n @ ''.attn_qkv.weight'')"
  "qkv_match (mx_prefix_of r n @ ''.attn_qkv.bias'')"
proof -
  have p: "match_encoder k \<Longrightarrow> qkv_match (''backbone_model.'' @ k)" for k
    unfolding qkv_match_def strip_prefix_append by simp
  have q: "match_encoder k \<Longrightarrow> qkv_match k" for k
    unfolding qkv_match_def by simp
  show "qkv_match (mx_prefix_of r n @ ''.attn_qkv.weight'')"
    using p [OF match_encoder_layer(1) [of n]] q [OF match_encoder_layer(1) [of n]]
    by (simp add: mx_prefix_of_def Let_def)
  show "qkv_match (mx_prefix_of r n @ ''.attn_qkv.bias'')"
    using p [OF match_encoder_layer(2) [of n]] q [OF match_encoder_layer(2) [of n]]
    by (simp add: mx_prefix_of_def Let_def)
qed

lemma merger_filled_match: "k \<in> set (merger_filled r n) \<Longrightarrow> qkv_match k"
  by (auto simp: merger_filled_def qkv_match_prefix)

lemma check_leftover_eq:
  "check_leftover r ks =
     (if \<forall>k \<in> set ks. (r = ''gen'' \<and> k \<in> set disc_embed_params) \<or> qkv_match k then Inr ()
      else Inl AssertionError)"
  by (induction ks) auto

text \<open>
  Claim C1. After the loop of the materializer, the completeness check raises (the failed
  \<^verbatim>\<open>assert\<close>) unless every target name left over matches the pattern of the fused
  projections. The names left over are all names, less the targets that the loop touched,
  less the names that the merger fills, less -- in the generator role only -- the names of
  \<open>disc_embed_params\<close>. The script runs the check before the merger and does not take the
  merger's names out; they all match the pattern, so the outcome is the same. The pattern
  is one regular expression for every role, with the prefix \<^verbatim>\<open>backbone_model.\<close> optional.
\<close>

theorem completeness_check:
  assumes "materialize tf_params name_map (all_keys, mx_params) = Inr (all_keys', mx_params')"
  shows "check_leftover convert_type all_keys' =
     (if \<forall>key \<in> set all_keys - {d. \<exists>s. (s, Some d) \<in> set name_map}
                   - set (merger_filled convert_type n)
                   - (if convert_type = ''gen'' then set disc_embed_params else {}).
           qkv_match key
      then Inr () else Inl AssertionError)"
proof -
  have "set all_keys' = set all_keys - {d. \<exists>s. (s, Some d) \<in> set name_map}"
    using assms by (rule materialize_leftover)
  then show ?thesis
    unfolding check_leftover_eq using merger_filled_match [of _ convert_type n]
    by auto
qed

theorem completeness_check_witness:
  "materialize
     [(''generator_predictions/output_bias'', \<lparr>shape = [2], data = [5, 6 :: int]\<rparr>)]
     [(''generator_predictions/output_bias'', Some ''mlm_decoder.3.bias'')]
     ([''backbone_model.word_embed.weight'',
       ''backbone_model.encoder.all_encoder_layers.0.attn_qkv.weight'',
       ''backbone_model.encoder.all_encoder_layers.0.attn_qkv.bias'',
       ''mlm_decoder.3.bias''],
      [(''mlm_decoder.3.bias'', \<lparr>shape = [2], data = [0, 0]\<rparr>)]) =
   Inr ([''backbone_model.word_embed.weight'',
         ''backbone_model.encoder.all_encoder_layers.0.attn_qkv.weight'',
         ''backbone_model.encoder.all_encoder_layers.0.attn_qkv.bias''],
        [(''mlm_decoder.3.bias'', \<lparr>shape = [2], data = [5, 6]\<rparr>)]) \<and>
   check_leftover ''gen''
     [''backbone_model.word_embed.weight'',
      ''backbone_model.encoder.all_encoder_layers.0.attn_qkv.weight'',
      ''backbone_model.encoder.all_encoder_layers.0.attn_qkv.bias''] = Inr () \<and>
   check_leftover ''disc''
     [''backbone_model.word_embed.weight'',
      ''backbone_model.encoder.all_encoder_layers.0.attn_qkv.weight'',
      ''backbone_model.encoder.all_encoder_layers.0.attn_qkv.bias''] = Inl AssertionError"
proof -
  let ?tf = "[(''generator_predictions/output_bias'', \<lparr>shape = [2], data = [5, 6 :: int]\<rparr>)]"
  let ?nm = "[(''generator_predictions/output_bias'', Some ''mlm_decoder.3.bias'')]"
  let ?ak = "[''backbone_model.word_embed.weight'',
       ''backbone_model.encoder.all_encoder_layers.0.attn_qkv.weight'',
       ''backbone_model.encoder.all_encoder_layers.0.attn_qkv.bias'',
       ''mlm_decoder.3.bias'']"
  let ?ak' = "[''backbone_model.word_embed.weight'',
         ''backbone_model.encoder.all_encoder_layers.0.attn_qkv.weight'',
         ''backbone_model.encoder.all_encoder_layers.0.attn_qkv.bias'']"
  let ?mx = "[(''mlm_decoder.3.bias'', \<lparr>shape = [2], data = [0, 0 :: int]\<rparr>)]"
  let ?mx' = "[(''mlm_decoder.3.bias'', \<lparr>shape = [2], data = [5, 6 :: int]\<rparr>)]"
  have m: "materialize ?tf ?nm (?ak, ?mx) = Inr (?ak', ?mx')"
    by (simp add: getitem_def set_data_def endswith_def)
  have q: "\<not> qkv_match ''backbone_model.word_embed.weight''"
    "qkv_match ''backbone_model.encoder.all_encoder_layers.0.attn_qkv.weight''"
    "qkv_match ''backbone_model.encoder.all_encoder_layers.0.attn_qkv.bias''"
    by (simp_all add: qkv_match_def match_encoder_def match_suffix_def strip_prefix_def
        at_end_def is_digit_def)
  have g: "check_leftover ''gen'' ?ak' = Inr ()"
    using q by (simp add: disc_embed_params_def)
  have d: "check_leftover ''disc'' ?ak' = Inl AssertionError"
    using q by simp
  from completeness_check [OF m, of "''gen''" 1] completeness_check [OF m, of "''disc''" 1] m g d
  show ?thesis by simp
qed

section \<open>Properties of the configuration translator\<close>

lemma endswith_nonempty: "endswith ''.txt'' s \<Longrightarrow> s \<noteq> []"
  by (auto simp: endswith_def)

lemma find_vocab_Some:
  "find_vocab v fs = Inr (Some ele) \<Longrightarrow> v = Some ele \<or> endswith ''.txt'' ele"
  by (induction fs arbitrary: v) (auto split: if_splits)

text \<open>
  Claim C9. \<open>convert_tf_config\<close> fails, with the \<^verbatim>\<open>AssertionError\<close> of its first line,
  exactly when the vocabulary size it is given differs from the \<^verbatim>\<open>vocab_size\<close> of the
  checkpoint's configuration, and otherwise returns a frozen configuration with that
  vocabulary size. \<open>convert_tf_assets\<close> gives it the number of lines of the vocabulary
  file, the one file of the directory whose name ends with \<^verbatim>\<open>.txt\<close>.
\<close>

theorem config_vocab_size_mismatch:
  "(convert_tf_config base config_dict n = Inl AssertionError \<longleftrightarrow>
      n \<noteq> cd_vocab_size config_dict) \<and>
   (n = cd_vocab_size config_dict \<longrightarrow>
      (\<exists>cfg. convert_tf_config base config_dict n = Inr cfg \<and> frozen cfg \<and>
         vocab_size (MODEL cfg) = n)) \<and>
   (find_vocab None file_names = Inr (Some ele) \<longrightarrow>
      convert_tf_assets base config_dict readlines file_names tf_assets_dir =
        (case convert_tf_config base config_dict
                (int (length (readlines (path_join tf_assets_dir ele)))) of
           Inl e \<Rightarrow> Inl e
         | Inr cfg \<Rightarrow> Inr (cfg, path_join tf_assets_dir ele)))"
proof -
  have 1: "convert_tf_config base config_dict n = Inl AssertionError \<longleftrightarrow>
      n \<noteq> cd_vocab_size config_dict"
    by (simp add: convert_tf_config_def Let_def)
  have 2: "n = cd_vocab_size config_dict \<longrightarrow>
      (\<exists>cfg. convert_tf_config base config_dict n = Inr cfg \<and> frozen cfg \<and>
         vocab_size (MODEL cfg) = n)"
    by (simp add: convert_tf_config_def Let_def)
  have 3: "find_vocab None file_names = Inr (Some ele) \<longrightarrow>
      convert_tf_assets base config_dict readlines file_names tf_assets_dir =
        (case convert_tf_config base config_dict
                (int (length (readlines (path_join tf_assets_dir ele)))) of
           Inl e \<Rightarrow> Inl e
         | Inr cfg \<Rightarrow> Inr (cfg, path_join tf_assets_dir ele))"
  proof
    assume f: "find_vocab None file_names = Inr (Some ele)"
    from find_vocab_Some [OF f] have "ele \<noteq> []" by (auto dest: endswith_nonempty)
    with f show "convert_tf_assets base config_dict readlines file_names tf_assets_dir =
        (case convert_tf_config base config_dict
                (int (length (readlines (path_join tf_assets_dir ele)))) of
           Inl e \<Rightarrow> Inl e
         | Inr cfg \<Rightarrow> Inr (cfg, path_join tf_assets_dir ele))"
      by (simp add: convert_tf_assets_def Let_def)
  qed
  from 1 2 3 show ?thesis by blast
qed

theorem config_vocab_size_mismatch_witness:
  "convert_tf_config example_base_cfg example_config_dict 49 = Inl AssertionError \<and>
   (\<exists>cfg. convert_tf_config example_base_cfg example_config_dict 50 = Inr cfg \<and>
      frozen cfg \<and> vocab_size (MODEL cfg) = 50) \<and>
   find_vocab None [''electra_small.index'', ''vocab.txt''] = Inr (Some ''vocab.txt'') \<and>
   convert_tf_assets example_base_cfg example_config_dict
     (\<lambda>path. if path = ''assets/vocab.txt'' then replicate 49 ''[PAD]'' else [])
     [''electra_small.index'', ''vocab.txt''] ''assets'' = Inl AssertionError"
proof -
  let ?rl = "\<lambda>path. if path = ''assets/vocab.txt'' then replicate 49 ''[PAD]'' else []"
  let ?fs = "[''electra_small.index'', ''vocab.txt'']"
  have v: "cd_vocab_size example_config_dict = 50"
    by (simp add: example_config_dict_def)
  have f: "find_vocab None ?fs = Inr (Some ''vocab.txt'')"
    by (simp add: endswith_def)
  have p: "path_join ''assets'' ''vocab.txt'' = ''assets/vocab.txt''"
    by (simp add: path_join_def endswith_def)
  have l: "int (length (?rl (path_join ''assets'' ''vocab.txt''))) = 49"
    unfolding p by simp
  have 1: "convert_tf_config example_base_cfg example_config_dict 49 = Inl AssertionError"
    using config_vocab_size_mismatch [of example_base_cfg example_config_dict 49] v by simp
  have 2: "\<exists>cfg. convert_tf_config example_base_cfg example_config_dict 50 = Inr cfg \<and>
      frozen cfg \<and> vocab_size (MODEL cfg) = 50"
    using config_vocab_size_mismatch [of example_base_cfg example_config_dict 50] v by simp
  have 3: "convert_tf_assets example_base_cfg example_config_dict ?rl ?fs ''assets'' =
      Inl AssertionError"
    using config_vocab_size_mismatch [of example_base_cfg example_config_dict 49 ?fs
        "''vocab.txt''" ?rl "''assets''"] f 1
    unfolding l by simp
  from 1 2 f 3 show ?thesis by blast
qed

section \<open>Properties of the merger\<close>









end
